theory Spec2Isabelle
  imports Main
begin

section \<open>The bridge supervisor of main.go\<close>

text \<open>
  The supervisor talks to collaborators whose code is outside main.go (the flag parser,
  the config loader, the app service, the logger, the database layer, the WhatsApp
  session). Each call to one of them is recorded as an event of the run, and what the
  call returns is read from a record of the outside world, so that every theorem
  quantifies over all the behaviours the collaborators may show. Every collaborator is
  taken to return. A Go \<open>error\<close> is the text of the error; \<open>nil\<close> is \<open>None\<close> of
  \<open>error option\<close>, and a pair \<open>(value, error)\<close> is a sum with the error on the left.
\<close>

type_synonym error = string

subsection \<open>Data\<close>

text \<open>\<open>bridge.Config.AppService.Bot\<close>: the two fields UpdateBotProfile reads.\<close>

record BotConfig =
  Displayname :: string
  Avatar :: string

record Config =
  Bot :: BotConfig

type_synonym Registration = string

type_synonym MatrixUserID = string
type_synonym WhatsAppID = string

text \<open>
  \<open>*whatsapp.Conn\<close> is a pointer: \<open>nil\<close> is \<open>None\<close>, a live session is \<open>Some\<close> of its
  identity. \<open>whatsapp.Session\<close> is the resumable-session token \<open>Disconnect\<close> returns.
\<close>

type_synonym whatsapp_Conn = nat
type_synonym whatsapp_Session = string

text \<open>The fields of \<open>User\<close> that main.go reads or writes.\<close>

record User =
  MXID :: MatrixUserID
  Conn :: "whatsapp_Conn option"
  Session :: "whatsapp_Session option"

text \<open>
  \<open>chan bool\<close>: the capacity given to \<open>make\<close> and the values waiting in the buffer. A
  send goes through when the buffer has room, and otherwise waits for a receiver
  (\<open>None\<close>); a receive takes the oldest value, and waits on an empty buffer (\<open>None\<close>).
\<close>

record chan_bool =
  capacity :: nat
  buffer :: "bool list"

definition make_chan_bool :: "nat \<Rightarrow> chan_bool" where
  "make_chan_bool n = \<lparr>capacity = n, buffer = []\<rparr>"

definition chan_send :: "bool \<Rightarrow> chan_bool \<Rightarrow> chan_bool option" where
  "chan_send v ch =
     (if length (buffer ch) < capacity ch then Some (ch\<lparr>buffer := buffer ch @ [v]\<rparr>) else None)"

definition chan_recv :: "chan_bool \<Rightarrow> (bool \<times> chan_bool) option" where
  "chan_recv ch = (case buffer ch of [] \<Rightarrow> None | v # vs \<Rightarrow> Some (v, ch\<lparr>buffer := vs\<rparr>))"

text \<open>
  The fields of \<open>Bridge\<close> that the properties below are about. \<open>usersByJID\<close> is a
  Go map; it is kept as the list of its entries in the order \<open>range\<close> visits them, an
  order the runtime picks anew for every loop, so a theorem about all lists is a theorem
  about every order. The values of the map are pointers; every user is taken to stand
  under one key, so that an entry owns its record. The handles \<open>AS\<close>,
  \<open>EventProcessor\<close>, \<open>Log\<close>, \<open>StateStore\<close> and \<open>Bot\<close> are set by \<open>Init\<close> before
  anything uses them and appear as the events of the calls made on them.
\<close>

record Bridge =
  Config :: Config
  usersByJID :: "(WhatsAppID \<times> User) list"
  usersChanged :: bool
  portalsChanged :: bool
  puppetsChanged :: bool
  stopSaveLoop :: chan_bool

subsection \<open>Events and outcomes of a run\<close>

datatype level = Debug | Info | Warn | Error | Fatal

datatype task = AS_Start | EventProcessor_Start | UpdateBotProfile_task | StartUsers_task | SaveLoop_task

datatype event =
    Stderr string
  | Stdout string
  | PrintHelp
  | LogLine level string
  | config_Load string
  | Config_NewRegistration
  | Registration_Save string
  | Config_Save string
  | Config_MakeAppService
  | AS_Init
  | AS_BotIntent
  | log_Create
  | Logging_Configure
  | log_OpenFile
  | log_Sub string
  | StateStore_Load
  | LoadUsers
  | LoadPortals
  | LoadPuppets
  | NewEventProcessor
  | NewMatrixHandler
  | NewFormatter
  | Go task
  | signal_Notify
  | signal_Received
  | stopSaveLoop_Send bool
  | AS_Stop
  | EventProcessor_Stop
  | Conn_Disconnect whatsapp_Conn
  | StateStore_Save
  | SaveUsers
  | SavePortals
  | SavePuppets
  | Bot_SetAvatarURL string
  | Bot_SetDisplayName string

text \<open>
  How the process ends: \<open>os.Exit\<close> with a code, or the main goroutine waiting for ever,
  on the signal channel or on a send that never goes through.
\<close>

datatype outcome = Exit int | WaitingForSignal | BlockedOnSend

subsection \<open>The outside world\<close>

text \<open>
  The parsed command line, and what each collaborator returns in this run. The registry
  is changed by other goroutines while the bridge runs, so its content when the signal
  arrives (\<open>users_at_signal\<close>) belongs to the world as well.
\<close>

record World =
  flag_Parse_err :: "error option"
  wantHelp :: bool
  generateRegistration :: bool
  configPath :: string
  registrationPath :: string
  config_Load_res :: "string \<Rightarrow> error + Config"
  NewRegistration_res :: "Config \<Rightarrow> error + Registration \<times> Config"
  Registration_Save_err :: "Registration \<Rightarrow> string \<Rightarrow> error option"
  Config_Save_err :: "Config \<Rightarrow> string \<Rightarrow> error option"
  MakeAppService_err :: "Config \<Rightarrow> error option"
  log_OpenFile_err :: "error option"
  StateStore_Load_err :: "error option"
  LoadUsers_res :: "error + (WhatsAppID \<times> User) list"
  LoadPortals_err :: "error option"
  LoadPuppets_err :: "error option"
  signal_arrives :: bool
  users_at_signal :: "(WhatsAppID \<times> User) list"
  Disconnect_res :: "whatsapp_Conn \<Rightarrow> error + whatsapp_Session"
  StateStore_Save_err :: "error option"
  SaveUsers_err :: "error option"
  SavePortals_err :: "error option"
  SavePuppets_err :: "error option"

text \<open>\<open>Println\<close>-style output: the message, a space, the error.\<close>

definition msg_err :: "string \<Rightarrow> error \<Rightarrow> string" where
  "msg_err msg e = msg @ '' '' @ e"

subsection \<open>Bridge.GenerateRegistration (lines 43 to 63)\<close>

text \<open>Every path of the function ends in \<open>os.Exit\<close>: it returns the exit code.\<close>

definition registration_generated :: string where
  "registration_generated =
     ''Registration generated. Add the path to the registration to your Synapse config, restart it, then start the bridge.''"

definition Bridge_GenerateRegistration :: "World \<Rightarrow> Bridge \<Rightarrow> event list \<times> int" where
  "Bridge_GenerateRegistration w bridge =
     (case NewRegistration_res w (Config bridge) of
        Inl err \<Rightarrow>
          ([Config_NewRegistration, Stderr (msg_err ''Failed to generate registration:'' err)], 20)
      | Inr (reg, cfg) \<Rightarrow>
          (case Registration_Save_err w reg (registrationPath w) of
             Some err \<Rightarrow>
               ([Config_NewRegistration, Registration_Save (registrationPath w),
                 Stderr (msg_err ''Failed to save registration:'' err)], 21)
           | None \<Rightarrow>
               (case Config_Save_err w cfg (configPath w) of
                  Some err \<Rightarrow>
                    ([Config_NewRegistration, Registration_Save (registrationPath w),
                      Config_Save (configPath w),
                      Stderr (msg_err ''Failed to save config:'' err)], 22)
                | None \<Rightarrow>
                    ([Config_NewRegistration, Registration_Save (registrationPath w),
                      Config_Save (configPath w),
                      Stdout registration_generated],
                     0))))"

subsection \<open>NewBridge (lines 93 to 112)\<close>

definition NewBridge :: "World \<Rightarrow> event list \<times> (outcome + Bridge)" where
  "NewBridge w =
     (case config_Load_res w (configPath w) of
        Inl err \<Rightarrow>
          ([config_Load (configPath w), Stderr (msg_err ''Failed to load config:'' err)],
           Inl (Exit 10))
      | Inr cfg \<Rightarrow>
          ([config_Load (configPath w)],
           Inr \<lparr>Config = cfg, usersByJID = [], usersChanged = False, portalsChanged = False,
                puppetsChanged = False, stopSaveLoop = make_chan_bool 1\<rparr>))"

subsection \<open>Bridge.Init (lines 114 to 161)\<close>

text \<open>
  The first two failures are reported with \<open>fmt.Fprintln\<close> on standard error, the later
  ones with \<open>Log.Fatalln\<close>, which writes a log line of level fatal; in each case the
  source then calls \<open>os.Exit\<close> itself.
\<close>

definition Init_appservice :: "event list" where
  "Init_appservice = [Config_MakeAppService, AS_Init, AS_BotIntent]"

definition Init_logging :: "event list" where
  "Init_logging = [log_Create, Logging_Configure, log_OpenFile]"

definition Init_handlers :: "event list" where
  "Init_handlers =
     [LogLine Debug ''Initializing Matrix event processor'', NewEventProcessor,
      LogLine Debug ''Initializing Matrix event handler'', NewMatrixHandler, NewFormatter]"

definition Bridge_Init :: "World \<Rightarrow> Bridge \<Rightarrow> event list \<times> (outcome + Bridge)" where
  "Bridge_Init w bridge =
     (case MakeAppService_err w (Config bridge) of
        Some err \<Rightarrow>
          ([Config_MakeAppService, Stderr (msg_err ''Failed to initialize AppService:'' err)],
           Inl (Exit 11))
      | None \<Rightarrow>
     (case log_OpenFile_err w of
        Some err \<Rightarrow>
          (Init_appservice @ Init_logging @ [Stderr (msg_err ''Failed to open log file:'' err)],
           Inl (Exit 12))
      | None \<Rightarrow>
     (case StateStore_Load_err w of
        Some err \<Rightarrow>
          (Init_appservice @ Init_logging
           @ [log_Sub ''Matrix'', LogLine Debug ''Initializing state store'', StateStore_Load,
              LogLine Fatal (msg_err ''Failed to load state store:'' err)],
           Inl (Exit 13))
      | None \<Rightarrow>
     (case LoadUsers_res w of
        Inl err \<Rightarrow>
          (Init_appservice @ Init_logging
           @ [log_Sub ''Matrix'', LogLine Debug ''Initializing state store'', StateStore_Load,
              LogLine Debug ''Initializing database'', LoadUsers,
              LogLine Fatal (msg_err ''Failed to load users:'' err)],
           Inl (Exit 14))
      | Inr users \<Rightarrow>
     (case LoadPortals_err w of
        Some err \<Rightarrow>
          (Init_appservice @ Init_logging
           @ [log_Sub ''Matrix'', LogLine Debug ''Initializing state store'', StateStore_Load,
              LogLine Debug ''Initializing database'', LoadUsers, LoadPortals,
              LogLine Fatal (msg_err ''Failed to load portals:'' err)],
           Inl (Exit 15))
      | None \<Rightarrow>
     (case LoadPuppets_err w of
        Some err \<Rightarrow>
          (Init_appservice @ Init_logging
           @ [log_Sub ''Matrix'', LogLine Debug ''Initializing state store'', StateStore_Load,
              LogLine Debug ''Initializing database'', LoadUsers, LoadPortals, LoadPuppets,
              LogLine Fatal (msg_err ''Failed to load puppets:'' err)],
           Inl (Exit 16))
      | None \<Rightarrow>
          (Init_appservice @ Init_logging
           @ [log_Sub ''Matrix'', LogLine Debug ''Initializing state store'', StateStore_Load,
              LogLine Debug ''Initializing database'', LoadUsers, LoadPortals, LoadPuppets]
           @ Init_handlers,
           Inr (bridge\<lparr>usersByJID := users\<rparr>))))))))"

subsection \<open>Bridge.Start (lines 163 to 171)\<close>

text \<open>Five \<open>go\<close> statements: the main goroutine spawns the units and goes on.\<close>

definition Bridge_Start :: "event list" where
  "Bridge_Start =
     [LogLine Debug ''Starting application service HTTP server'', Go AS_Start,
      LogLine Debug ''Starting event processor'', Go EventProcessor_Start,
      Go UpdateBotProfile_task, Go StartUsers_task, Go SaveLoop_task]"

subsection \<open>Bridge.UpdateBotProfile (lines 173 to 195)\<close>

text \<open>
  The bot intent: what \<open>SetAvatarURL\<close> and \<open>SetDisplayName\<close> return for a given
  argument.
\<close>

record IntentAPI =
  SetAvatarURL :: "string \<Rightarrow> error option"
  SetDisplayName :: "string \<Rightarrow> error option"

text \<open>
  The function keeps one variable \<open>err\<close> for both halves: the second half starts from
  the value the first half left in it. Lines 178 to 182 are the avatar half, lines 187 to
  191 the displayname half; the second branch of the displayname half tests
  \<open>len(botConfig.Avatar)\<close>, as the source does.
\<close>

definition UpdateBotProfile_avatar :: "IntentAPI \<Rightarrow> BotConfig \<Rightarrow> event list \<times> error option" where
  "UpdateBotProfile_avatar intent botConfig =
     (if Avatar botConfig = ''remove'' then
        ([Bot_SetAvatarURL ''''], SetAvatarURL intent '''')
      else if length (Avatar botConfig) > 0 then
        ([Bot_SetAvatarURL (Avatar botConfig)], SetAvatarURL intent (Avatar botConfig))
      else ([], None))"

definition UpdateBotProfile_displayname ::
  "IntentAPI \<Rightarrow> BotConfig \<Rightarrow> error option \<Rightarrow> event list \<times> error option" where
  "UpdateBotProfile_displayname intent botConfig err =
     (if Displayname botConfig = ''remove'' then
        ([Bot_SetDisplayName ''''], SetDisplayName intent '''')
      else if length (Avatar botConfig) > 0 then
        ([Bot_SetDisplayName (Displayname botConfig)], SetDisplayName intent (Displayname botConfig))
      else ([], err))"

definition warn_if :: "error option \<Rightarrow> string \<Rightarrow> event list" where
  "warn_if err msg = (case err of None \<Rightarrow> [] | Some e \<Rightarrow> [LogLine Warn (msg_err msg e)])"

definition Bridge_UpdateBotProfile :: "IntentAPI \<Rightarrow> Bridge \<Rightarrow> event list" where
  "Bridge_UpdateBotProfile intent bridge =
     (let botConfig = Bot (Config bridge);
          (evs1, err1) = UpdateBotProfile_avatar intent botConfig;
          (evs2, err2) = UpdateBotProfile_displayname intent botConfig err1
      in [LogLine Debug ''Updating bot profile'']
         @ evs1 @ warn_if err1 ''Failed to update bot avatar:''
         @ evs2 @ warn_if err2 ''Failed to update bot displayname:'')"

text \<open>The values the run passes to \<open>SetDisplayName\<close>, in order.\<close>

fun displayname_calls :: "event list \<Rightarrow> string list" where
  "displayname_calls [] = []"
| "displayname_calls (Bot_SetDisplayName n # evs) = n # displayname_calls evs"
| "displayname_calls (_ # evs) = displayname_calls evs"

subsection \<open>Bridge.Stop (lines 214 to 241)\<close>

text \<open>
  Modelled from the spec: \<open>User.SetSession\<close> is in a file that is not part of the
  sources; the spec says the returned token is captured into the User's record.
\<close>

definition User_SetSession :: "whatsapp_Session \<Rightarrow> User \<Rightarrow> User" where
  "User_SetSession sess user = user\<lparr>Session := Some sess\<rparr>"

text \<open>
  The loop of lines 218 to 229, one entry of the map after the other: the events of the
  entry, and the entry as the loop leaves it.
\<close>

fun Stop_disconnect ::
  "World \<Rightarrow> (WhatsAppID \<times> User) list \<Rightarrow> event list \<times> (WhatsAppID \<times> User) list" where
  "Stop_disconnect w [] = ([], [])"
| "Stop_disconnect w ((jid, user) # rest) =
     (let (evs, rest') = Stop_disconnect w rest in
      case Conn user of
        None \<Rightarrow> (evs, (jid, user) # rest')
      | Some conn \<Rightarrow>
          (case Disconnect_res w conn of
             Inl err \<Rightarrow>
               ([LogLine Debug (msg_err ''Disconnecting'' (MXID user)), Conn_Disconnect conn,
                 LogLine Error (''Error while disconnecting '' @ MXID user @ '': '' @ err)] @ evs,
                (jid, user) # rest')
           | Inr sess \<Rightarrow>
               ([LogLine Debug (msg_err ''Disconnecting'' (MXID user)), Conn_Disconnect conn] @ evs,
                (jid, User_SetSession sess user) # rest')))"

text \<open>
  Lines 230 to 240: the state store, then the chain of \<open>if\<close> / \<open>else if\<close> over the three
  collections, with the log texts of the source.
\<close>

definition Stop_persist :: "World \<Rightarrow> event list" where
  "Stop_persist w =
     [StateStore_Save] @ warn_if (StateStore_Save_err w) ''Failed to save state store:''
     @ (case SaveUsers_err w of
          Some err \<Rightarrow> [SaveUsers, LogLine Warn (msg_err ''Failed to save users:'' err)]
        | None \<Rightarrow>
       (case SavePortals_err w of
          Some err \<Rightarrow> [SaveUsers, SavePortals, LogLine Warn (msg_err ''Failed to save puppets:'' err)]
        | None \<Rightarrow>
       (case SavePuppets_err w of
          Some err \<Rightarrow>
            [SaveUsers, SavePortals, SavePuppets,
             LogLine Warn (msg_err ''Failed to save puppets:'' err)]
        | None \<Rightarrow> [SaveUsers, SavePortals, SavePuppets])))"

definition Bridge_Stop :: "World \<Rightarrow> Bridge \<Rightarrow> event list \<times> (outcome + Bridge)" where
  "Bridge_Stop w bridge =
     (case chan_send True (stopSaveLoop bridge) of
        None \<Rightarrow> ([], Inl BlockedOnSend)
      | Some ch \<Rightarrow>
          (let (evs, users) = Stop_disconnect w (usersByJID bridge) in
           ([stopSaveLoop_Send True, AS_Stop, EventProcessor_Stop] @ evs @ Stop_persist w,
            Inr (bridge\<lparr>usersByJID := users, stopSaveLoop := ch\<rparr>))))"

subsection \<open>Bridge.Main (lines 243 to 262) and main (lines 264 to 279)\<close>

text \<open>
  Between \<open>Start\<close> and the signal the other goroutines change the registry: \<open>Stop\<close> runs
  on the users the world holds when the signal arrives. Nothing in main.go but \<open>Stop\<close>
  sends on \<open>stopSaveLoop\<close>, so the channel is the one \<open>NewBridge\<close> made.
\<close>

definition Bridge_Main :: "World \<Rightarrow> Bridge \<Rightarrow> event list \<times> outcome" where
  "Bridge_Main w bridge =
     (if generateRegistration w then
        (let (evs, code) = Bridge_GenerateRegistration w bridge in (evs, Exit code))
      else
        (case Bridge_Init w bridge of
           (evs, Inl out) \<Rightarrow> (evs, out)
         | (evs, Inr bridge1) \<Rightarrow>
             (let up =
                    evs @ [LogLine Info ''Bridge initialization complete, starting...'']
                    @ Bridge_Start @ [LogLine Info ''Bridge started!'', signal_Notify]
              in if \<not> signal_arrives w then (up, WaitingForSignal)
                 else
                   (case Bridge_Stop w (bridge1\<lparr>usersByJID := users_at_signal w\<rparr>) of
                      (evs', Inl out) \<Rightarrow>
                        (up
                         @ [signal_Received, LogLine Info ''Interrupt received, stopping...'']
                         @ evs', out)
                    | (evs', Inr bridge2) \<Rightarrow>
                        (up
                         @ [signal_Received, LogLine Info ''Interrupt received, stopping...'']
                         @ evs' @ [LogLine Info ''Bridge stopped.''], Exit 0)))))"

definition main :: "World \<Rightarrow> event list \<times> outcome" where
  "main w =
     (case flag_Parse_err w of
        Some err \<Rightarrow> ([Stderr err, PrintHelp], Exit 1)
      | None \<Rightarrow>
          if wantHelp w then ([PrintHelp], Exit 0)
          else
            (case NewBridge w of
               (evs, Inl out) \<Rightarrow> (evs, out)
             | (evs, Inr bridge) \<Rightarrow>
                 (let (evs', out) = Bridge_Main w bridge in (evs @ evs', out))))"

text \<open>The events that write a file: the two saves of the generator, the log file, the
  state store and the three collections.\<close>

fun writes_file :: "event \<Rightarrow> bool" where
  "writes_file (Registration_Save p) = True"
| "writes_file (Config_Save p) = True"
| "writes_file log_OpenFile = True"
| "writes_file StateStore_Save = True"
| "writes_file SaveUsers = True"
| "writes_file SavePortals = True"
| "writes_file SavePuppets = True"
| "writes_file _ = False"

text \<open>The sessions a run asks to disconnect, in order.\<close>

fun disconnect_calls :: "event list \<Rightarrow> whatsapp_Conn list" where
  "disconnect_calls [] = []"
| "disconnect_calls (Conn_Disconnect c # evs) = c # disconnect_calls evs"
| "disconnect_calls (_ # evs) = disconnect_calls evs"

text \<open>The sessions of the users that have one, in the order of the entries.\<close>

fun active_sessions :: "(WhatsAppID \<times> User) list \<Rightarrow> whatsapp_Conn list" where
  "active_sessions [] = []"
| "active_sessions ((jid, user) # rest) =
     (case Conn user of None \<Rightarrow> active_sessions rest | Some c \<Rightarrow> c # active_sessions rest)"

subsection \<open>The autosave loop and its stop channel\<close>

text \<open>
  Modelled from the spec: \<open>Bridge.SaveLoop\<close> is in a file that is not part of the
  sources; main.go only starts it (\<open>go bridge.SaveLoop()\<close>, line 170). The spec says that
  on each tick every collection whose dirty flag is set is persisted and its flag
  cleared, that the loop terminates when it receives a stop signal, and that the signal
  can be delivered at any point between ticks.

  The goroutine of the loop and the main goroutine meet at \<open>bridge.stopSaveLoop\<close> only.
  A state is the shared bridge, where the loop stands, and whether \<open>Stop\<close> has done its
  send; an action is one step of one goroutine, and \<open>None\<close> says that the goroutine
  cannot take that step in that state (it waits, or it is not there). Other goroutines
  dirty the collections at any time; none of them touches the channel.
\<close>

datatype loop_pc = NotStarted | Selecting | Returned

datatype collection = Users | Portals | Puppets

datatype action = SaveLoop_begin | SaveLoop_tick | SaveLoop_stop | Stop_send | Mark_dirty collection

record running =
  shared :: Bridge
  SaveLoop_pc :: loop_pc
  stop_sent :: bool

fun mark_dirty :: "collection \<Rightarrow> Bridge \<Rightarrow> Bridge" where
  "mark_dirty Users b = b\<lparr>usersChanged := True\<rparr>"
| "mark_dirty Portals b = b\<lparr>portalsChanged := True\<rparr>"
| "mark_dirty Puppets b = b\<lparr>puppetsChanged := True\<rparr>"

text \<open>
  Modelled from the spec: the three steps of \<open>SaveLoop\<close>. It starts standing at its
  \<open>select\<close>; a tick persists the dirty collections and clears their flags; receiving
  from \<open>stopSaveLoop\<close> makes it return. \<open>Stop_send\<close> is line 215 of main.go, the only
  send on the channel, done once.
\<close>

fun step :: "action \<Rightarrow> running \<Rightarrow> running option" where
  "step SaveLoop_begin s =
     (if SaveLoop_pc s = NotStarted then Some (s\<lparr>SaveLoop_pc := Selecting\<rparr>) else None)"
| "step SaveLoop_tick s =
     (if SaveLoop_pc s = Selecting then
        Some (s\<lparr>shared := (shared s)\<lparr>usersChanged := False, portalsChanged := False,
                                     puppetsChanged := False\<rparr>\<rparr>)
      else None)"
| "step SaveLoop_stop s =
     (if SaveLoop_pc s = Selecting then
        (case chan_recv (stopSaveLoop (shared s)) of
           None \<Rightarrow> None
         | Some (v, ch) \<Rightarrow> Some (s\<lparr>shared := (shared s)\<lparr>stopSaveLoop := ch\<rparr>, SaveLoop_pc := Returned\<rparr>))
      else None)"
| "step Stop_send s =
     (if stop_sent s then None
      else
        (case chan_send True (stopSaveLoop (shared s)) of
           None \<Rightarrow> None
         | Some ch \<Rightarrow> Some (s\<lparr>shared := (shared s)\<lparr>stopSaveLoop := ch\<rparr>, stop_sent := True\<rparr>)))"
| "step (Mark_dirty c) s = Some (s\<lparr>shared := mark_dirty c (shared s)\<rparr>)"

fun run :: "action list \<Rightarrow> running \<Rightarrow> running option" where
  "run [] s = Some s"
| "run (a # as) s = (case step a s of None \<Rightarrow> None | Some s' \<Rightarrow> run as s')"

text \<open>The bridge as \<open>NewBridge\<close> returns it, no loop yet, nothing sent.\<close>

definition started :: "Bridge \<Rightarrow> running" where
  "started b = \<lparr>shared = b, SaveLoop_pc = NotStarted, stop_sent = False\<rparr>"

text \<open>
  What holds in every state the two goroutines can reach: the channel keeps the capacity
  \<open>NewBridge\<close> gave it; before the send the buffer is empty and the loop has not returned;
  after it, the signal waits in the buffer until the loop takes it and returns.
\<close>

definition stop_inv :: "running \<Rightarrow> bool" where
  "stop_inv s =
     (capacity (stopSaveLoop (shared s)) = 1 \<and>
      (if stop_sent s
       then (SaveLoop_pc s = Returned \<and> buffer (stopSaveLoop (shared s)) = [])
          \<or> (SaveLoop_pc s \<noteq> Returned \<and> buffer (stopSaveLoop (shared s)) = [True])
       else SaveLoop_pc s \<noteq> Returned \<and> buffer (stopSaveLoop (shared s)) = []))"

subsection \<open>Reading a run\<close>

text \<open>The events of \<open>Init\<close> and \<open>Start\<close>: setting up or starting a subsystem.\<close>

fun init_or_start :: "event \<Rightarrow> bool" where
  "init_or_start Config_MakeAppService = True"
| "init_or_start AS_Init = True"
| "init_or_start AS_BotIntent = True"
| "init_or_start log_Create = True"
| "init_or_start Logging_Configure = True"
| "init_or_start log_OpenFile = True"
| "init_or_start (log_Sub n) = True"
| "init_or_start StateStore_Load = True"
| "init_or_start LoadUsers = True"
| "init_or_start LoadPortals = True"
| "init_or_start LoadPuppets = True"
| "init_or_start NewEventProcessor = True"
| "init_or_start NewMatrixHandler = True"
| "init_or_start NewFormatter = True"
| "init_or_start (Go t) = True"
| "init_or_start _ = False"

text \<open>
  The policy the configuration documents for \<open>displayname\<close>, in the words of the spec:
  \<open>remove\<close> clears the field, any other non-empty value sets it, the empty value leaves
  it alone. The result is the list of values \<open>SetDisplayName\<close> should be called with.
\<close>

definition displayname_policy :: "string \<Rightarrow> string list" where
  "displayname_policy name =
     (if name = ''remove'' then [''''] else if name \<noteq> [] then [name] else [])"

subsection \<open>An example run\<close>

text \<open>
  A configuration, three users (two with a session, one without) and a world in which
  everything works except the disconnect of the second session.
\<close>

definition example_config :: Config where
  "example_config = \<lparr>Bot = \<lparr>Displayname = ''WhatsApp bridge bot'', Avatar = ''remove''\<rparr>\<rparr>"

definition alice :: User where
  "alice = \<lparr>MXID = ''@alice:example.org'', Conn = Some 1, Session = None\<rparr>"

definition bob :: User where
  "bob = \<lparr>MXID = ''@bob:example.org'', Conn = Some 2, Session = Some ''old-token''\<rparr>"

definition carol :: User where
  "carol = \<lparr>MXID = ''@carol:example.org'', Conn = None, Session = None\<rparr>"

definition example_users :: "(WhatsAppID \<times> User) list" where
  "example_users = [(''4915100000001'', alice), (''4915100000002'', bob), (''4915100000003'', carol)]"

definition example_world :: World where
  "example_world =
     \<lparr>flag_Parse_err = None, wantHelp = False, generateRegistration = False,
      configPath = ''config.yaml'', registrationPath = ''registration.yaml'',
      config_Load_res = (\<lambda>path. Inr example_config),
      NewRegistration_res = (\<lambda>cfg. Inr (''registration'', cfg)),
      Registration_Save_err = (\<lambda>reg path. None),
      Config_Save_err = (\<lambda>cfg path. None),
      MakeAppService_err = (\<lambda>cfg. None),
      log_OpenFile_err = None, StateStore_Load_err = None,
      LoadUsers_res = Inr [], LoadPortals_err = None, LoadPuppets_err = None,
      signal_arrives = True, users_at_signal = example_users,
      Disconnect_res = (\<lambda>conn. if conn = 2 then Inl ''connection timed out'' else Inr ''new-token''),
      StateStore_Save_err = None, SaveUsers_err = None, SavePortals_err = None,
      SavePuppets_err = None\<rparr>"

definition example_bridge :: Bridge where
  "example_bridge =
     \<lparr>Config = example_config, usersByJID = example_users, usersChanged = False,
      portalsChanged = False, puppetsChanged = False, stopSaveLoop = make_chan_bool 1\<rparr>"

text \<open>
  The same world with no config file to read, once asking for help and once with a
  command line that does not parse.
\<close>

definition no_config_help_world :: World where
  "no_config_help_world =
     example_world\<lparr>wantHelp := True,
       config_Load_res := (\<lambda>path. Inl ''open config.yaml: no such file or directory'')\<rparr>"

definition no_config_world :: World where
  "no_config_world =
     example_world\<lparr>config_Load_res := (\<lambda>path. Inl ''open config.yaml: no such file or directory'')\<rparr>"

definition no_config_bad_flag_world :: World where
  "no_config_bad_flag_world =
     example_world\<lparr>flag_Parse_err := Some ''Unknown flag: --verbose'',
       config_Load_res := (\<lambda>path. Inl ''open config.yaml: no such file or directory'')\<rparr>"

text \<open>The example world asked to generate the registration; with a log file that cannot
  be opened; and with a disk that is full when the bridge stops.\<close>

definition generate_world :: World where
  "generate_world = example_world\<lparr>generateRegistration := True\<rparr>"

definition no_log_world :: World where
  "no_log_world = example_world\<lparr>log_OpenFile_err := Some ''open bridge.log: permission denied''\<rparr>"

definition disk_full_world :: World where
  "disk_full_world =
     example_world\<lparr>StateStore_Save_err := Some ''no space left on device'',
       SaveUsers_err := Some ''no space left on device''\<rparr>"

section \<open>Properties\<close>

subsection \<open>Helper facts about the shutdown sequence\<close>

lemma disconnect_calls_append:
  "disconnect_calls (xs @ ys) = disconnect_calls xs @ disconnect_calls ys"
  by (induction xs rule: disconnect_calls.induct) simp_all

lemma Stop_disconnect_calls:
  "disconnect_calls (fst (Stop_disconnect w users)) = active_sessions users"
  by (induction users) (auto split: prod.split option.split sum.split)

lemma Stop_disconnect_writes_nothing:
  "filter writes_file (fst (Stop_disconnect w users)) = []"
  by (induction users) (auto split: prod.split option.split sum.split)

lemma Stop_disconnect_length: "length (snd (Stop_disconnect w users)) = length users"
  by (induction users) (auto split: prod.split option.split sum.split)

lemma Stop_disconnect_nth:
  "i < length users \<Longrightarrow> users ! i = (jid, u) \<Longrightarrow>
   snd (Stop_disconnect w users) ! i =
     (jid, case Conn u of
             None \<Rightarrow> u
           | Some c \<Rightarrow>
               (case Disconnect_res w c of Inl err \<Rightarrow> u | Inr sess \<Rightarrow> User_SetSession sess u))"
proof (induction users arbitrary: i)
  case Nil
  then show ?case by simp
next
  case (Cons x xs)
  show ?case
  proof (cases i)
    case 0
    with Cons.prems show ?thesis
      by (auto split: prod.split option.split sum.split)
  next
    case (Suc k)
    with Cons.prems have "k < length xs" "xs ! k = (jid, u)" by simp_all
    from Cons.IH[OF this] Suc show ?thesis
      by (cases x) (auto split: prod.split option.split sum.split)
  qed
qed

lemma active_sessions_nth:
  "i < length users \<Longrightarrow> users ! i = (jid, u) \<Longrightarrow> Conn u = Some c \<Longrightarrow>
   c \<in> set (active_sessions users)"
proof (induction users arbitrary: i)
  case Nil
  then show ?case by simp
next
  case (Cons x xs)
  then show ?case
    by (cases i; cases x) (auto split: option.split)
qed

lemma Stop_persist_no_disconnect: "disconnect_calls (Stop_persist w) = []"
  by (simp add: Stop_persist_def warn_if_def split: option.split)

lemma Stop_persist_always:
  "StateStore_Save \<in> set (Stop_persist w) \<and> SaveUsers \<in> set (Stop_persist w)"
  by (simp add: Stop_persist_def split: option.split)

lemma Stop_persist_all:
  "SaveUsers_err w = None \<Longrightarrow> SavePortals_err w = None \<Longrightarrow>
   filter writes_file (Stop_persist w) = [StateStore_Save, SaveUsers, SavePortals, SavePuppets]"
  by (simp add: Stop_persist_def warn_if_def split: option.split)

lemma Bridge_Stop_trace:
  "stopSaveLoop bridge = make_chan_bool 1 \<Longrightarrow>
   fst (Bridge_Stop w bridge) =
     [stopSaveLoop_Send True, AS_Stop, EventProcessor_Stop]
     @ fst (Stop_disconnect w (usersByJID bridge)) @ Stop_persist w"
  by (simp add: Bridge_Stop_def chan_send_def make_chan_bool_def split: prod.split)

lemma Stop_returns:
  "stopSaveLoop bridge = make_chan_bool 1 \<Longrightarrow>
   \<exists>evs bridge'. Bridge_Stop w bridge = (evs, Inr bridge')"
  by (simp add: Bridge_Stop_def chan_send_def make_chan_bool_def split: prod.split)

subsection \<open>Helper facts about the run up to the signal\<close>

lemma GenerateRegistration_no_signal:
  "signal_Received \<notin> set (fst (Bridge_GenerateRegistration w bridge))"
  by (simp add: Bridge_GenerateRegistration_def split: sum.split option.split prod.split)

lemma Init_no_signal: "signal_Received \<notin> set (fst (Bridge_Init w bridge))"
  by (simp add: Bridge_Init_def Init_appservice_def Init_logging_def Init_handlers_def
      split: sum.split option.split)

lemma Init_keeps_channel:
  "Bridge_Init w bridge = (evs, Inr bridge1) \<Longrightarrow> stopSaveLoop bridge1 = stopSaveLoop bridge"
  by (auto simp: Bridge_Init_def split: sum.splits option.splits)

lemma NewBridge_channel:
  "NewBridge w = (evs, Inr b) \<Longrightarrow> stopSaveLoop b = make_chan_bool 1"
  by (auto simp: NewBridge_def split: sum.splits)

lemma Bridge_Main_signal_exit:
  assumes "stopSaveLoop bridge = make_chan_bool 1"
    and "signal_Received \<in> set (fst (Bridge_Main w bridge))"
  shows "snd (Bridge_Main w bridge) = Exit 0"
proof (cases "generateRegistration w")
  case True
  with assms(2) GenerateRegistration_no_signal[of w bridge] show ?thesis
    by (simp add: Bridge_Main_def split: prod.splits)
next
  case gen: False
  obtain evs r where init: "Bridge_Init w bridge = (evs, r)"
    by (cases "Bridge_Init w bridge")
  have nosig: "signal_Received \<notin> set evs"
    using Init_no_signal[of w bridge] init by simp
  show ?thesis
  proof (cases r)
    case (Inl out)
    with gen init assms(2) nosig show ?thesis
      by (simp add: Bridge_Main_def)
  next
    case (Inr bridge1)
    with init have "stopSaveLoop bridge1 = make_chan_bool 1"
      using Init_keeps_channel assms(1) by metis
    then have "stopSaveLoop (bridge1\<lparr>usersByJID := users_at_signal w\<rparr>) = make_chan_bool 1"
      by simp
    from Stop_returns[OF this, of w] obtain evs' bridge2 where
      stop: "Bridge_Stop w (bridge1\<lparr>usersByJID := users_at_signal w\<rparr>) = (evs', Inr bridge2)"
      by blast
    show ?thesis
    proof (cases "signal_arrives w")
      case True
      with gen init Inr stop show ?thesis by (simp add: Bridge_Main_def)
    next
      case False
      with gen init Inr nosig assms(2) show ?thesis
        by (simp add: Bridge_Main_def Bridge_Start_def)
    qed
  qed
qed

subsection \<open>Helper facts about the stop channel\<close>

lemma unbuffered_send_waits: "chan_send v (make_chan_bool 0) = None"
  by (simp add: chan_send_def make_chan_bool_def)

lemma buffered_send_goes_through:
  "chan_send v (make_chan_bool 1) = Some \<lparr>capacity = 1, buffer = [v]\<rparr>"
  by (simp add: chan_send_def make_chan_bool_def)

lemma mark_dirty_channel: "stopSaveLoop (mark_dirty c b) = stopSaveLoop b"
  by (cases c) simp_all

lemma step_keeps_stop_inv: "stop_inv s \<Longrightarrow> step a s = Some s' \<Longrightarrow> stop_inv s'"
  by (cases a)
     (auto simp: stop_inv_def chan_send_def chan_recv_def mark_dirty_channel
           split: if_splits option.splits list.splits)

lemma run_keeps_stop_inv: "stop_inv s \<Longrightarrow> run sch s = Some s' \<Longrightarrow> stop_inv s'"
  by (induction sch arbitrary: s) (auto split: option.splits dest: step_keeps_stop_inv)

lemma started_stop_inv: "stopSaveLoop b = make_chan_bool 1 \<Longrightarrow> stop_inv (started b)"
  by (simp add: stop_inv_def started_def make_chan_bool_def)

subsection \<open>The bot profile (C1)\<close>

text \<open>
  C1 says that the displayname is treated by its own policy whatever the avatar is:
  \<open>remove\<close> clears it, another non-empty value sets it, the empty value leaves it
  alone. The second branch of the displayname half (line 189) tests the length of the
  avatar, not of the displayname. With no avatar configured a configured displayname is
  never sent, where the policy sets it; with an avatar configured and no displayname the
  code sends the empty displayname, where the policy leaves the field alone.
\<close>

theorem UpdateBotProfile_displayname_tests_avatar:
  "displayname_calls (Bridge_UpdateBotProfile intent
       (bridge\<lparr>Config := \<lparr>Bot = \<lparr>Displayname = ''WhatsApp bridge bot'', Avatar = ''''\<rparr>\<rparr>\<rparr>)) = []
   \<and> displayname_policy ''WhatsApp bridge bot'' = [''WhatsApp bridge bot'']
   \<and> displayname_calls (Bridge_UpdateBotProfile intent
       (bridge\<lparr>Config := \<lparr>Bot = \<lparr>Displayname = '''', Avatar = ''mxc://example.org/avatar''\<rparr>\<rparr>\<rparr>)) = ['''']
   \<and> displayname_policy '''' = []"
  by (simp add: Bridge_UpdateBotProfile_def UpdateBotProfile_avatar_def
      UpdateBotProfile_displayname_def warn_if_def displayname_policy_def split: option.split)

subsection \<open>Saving the collections at shutdown (C2)\<close>

text \<open>
  C2 says that users, portals and puppets are saved in this order and that each save is
  attempted even if an earlier one failed. The order is as claimed, but the three saves
  are an \<open>if\<close> / \<open>else if\<close> chain (lines 234 to 240): when saving the users fails, the
  portals and the puppets are not saved, and when saving the portals fails, the puppets
  are not saved. The state store just above is saved by a statement of its own, and its
  failure stops nothing.
\<close>

theorem Stop_failed_save_skips_later_saves:
  "filter writes_file (fst (Bridge_Stop (w\<lparr>SaveUsers_err := Some err\<rparr>)
       (bridge\<lparr>stopSaveLoop := make_chan_bool 1\<rparr>))) = [StateStore_Save, SaveUsers]
   \<and> filter writes_file (fst (Bridge_Stop (w\<lparr>SaveUsers_err := None, SavePortals_err := Some err\<rparr>)
       (bridge\<lparr>stopSaveLoop := make_chan_bool 1\<rparr>))) = [StateStore_Save, SaveUsers, SavePortals]
   \<and> filter writes_file (fst (Bridge_Stop (w\<lparr>StateStore_Save_err := Some err, SaveUsers_err := None,
                                             SavePortals_err := None\<rparr>)
       (bridge\<lparr>stopSaveLoop := make_chan_bool 1\<rparr>)))
       = [StateStore_Save, SaveUsers, SavePortals, SavePuppets]"
  by (simp add: Bridge_Stop_trace Stop_disconnect_writes_nothing Stop_persist_def warn_if_def
      split: option.split)

subsection \<open>A failed disconnect at shutdown (C3)\<close>

text \<open>
  C3: when the \<open>Disconnect\<close> of one user with a session returns an error, \<open>Stop\<close> still
  asks every user with a session to disconnect, the failing one and the others alike,
  and still goes through the persistence steps afterwards: the run ends with the events
  of lines 230 to 240, which do not depend on what any \<open>Disconnect\<close> returned; the state
  store and the users are always saved there, and when no save fails all four saves are
  made, in the order state store, users, portals, puppets.
\<close>

theorem Stop_disconnect_error_isolated:
  assumes "stopSaveLoop bridge = make_chan_bool 1"
    and "c \<in> set (active_sessions (usersByJID bridge))"
    and "Disconnect_res w c = Inl err"
  shows "disconnect_calls (fst (Bridge_Stop w bridge)) = active_sessions (usersByJID bridge)
    \<and> (\<exists>pre. fst (Bridge_Stop w bridge) = pre @ Stop_persist w
          \<and> disconnect_calls pre = active_sessions (usersByJID bridge))
    \<and> StateStore_Save \<in> set (Stop_persist w) \<and> SaveUsers \<in> set (Stop_persist w)
    \<and> Stop_persist (w\<lparr>Disconnect_res := d\<rparr>) = Stop_persist w
    \<and> (SaveUsers_err w = None \<and> SavePortals_err w = None \<longrightarrow>
         filter writes_file (Stop_persist w)
           = [StateStore_Save, SaveUsers, SavePortals, SavePuppets])"
proof -
  let ?pre = "[stopSaveLoop_Send True, AS_Stop, EventProcessor_Stop]
              @ fst (Stop_disconnect w (usersByJID bridge))"
  have tr: "fst (Bridge_Stop w bridge) = ?pre @ Stop_persist w"
    using assms(1) by (simp add: Bridge_Stop_trace)
  have pre: "disconnect_calls ?pre = active_sessions (usersByJID bridge)"
    by (simp add: Stop_disconnect_calls)
  have calls: "disconnect_calls (fst (Bridge_Stop w bridge)) = active_sessions (usersByJID bridge)"
    unfolding tr disconnect_calls_append using pre by (simp add: Stop_persist_no_disconnect)
  have indep: "Stop_persist (w\<lparr>Disconnect_res := d\<rparr>) = Stop_persist w"
    by (simp add: Stop_persist_def split: option.split)
  show ?thesis
    using tr pre calls indep Stop_persist_always[of w] Stop_persist_all[of w] by blast
qed

theorem Stop_disconnect_error_isolated_witness:
  "stopSaveLoop example_bridge = make_chan_bool 1
   \<and> 2 \<in> set (active_sessions (usersByJID example_bridge))
   \<and> Disconnect_res example_world 2 = Inl ''connection timed out''
   \<and> disconnect_calls (fst (Bridge_Stop example_world example_bridge)) = [1, 2]
   \<and> filter writes_file (Stop_persist example_world)
       = [StateStore_Save, SaveUsers, SavePortals, SavePuppets]"
proof -
  have h1: "stopSaveLoop example_bridge = make_chan_bool 1"
    by (simp add: example_bridge_def)
  have act: "active_sessions (usersByJID example_bridge) = [1, 2]"
    by (simp add: example_bridge_def example_users_def alice_def bob_def carol_def)
  have h2: "2 \<in> set (active_sessions (usersByJID example_bridge))"
    unfolding act by simp
  have h3: "Disconnect_res example_world 2 = Inl ''connection timed out''"
    by (simp add: example_world_def)
  have ok: "SaveUsers_err example_world = None \<and> SavePortals_err example_world = None"
    by (simp add: example_world_def)
  from Stop_disconnect_error_isolated[OF h1 h2 h3] h1 h2 h3 act ok show ?thesis
    by simp
qed

subsection \<open>Capturing the session token at shutdown (C4)\<close>

text \<open>
  C4: \<open>Stop\<close> asks exactly the users with a session to disconnect, each once and in the
  order of the loop. For the entry at any position of the map: a user without a session
  is left as it is; a user with a session is asked to disconnect, and its record then
  holds the returned token if \<open>Disconnect\<close> returned one, and is unchanged if it returned
  an error. Keys and number of entries stay as they were.
\<close>

theorem Stop_captures_session_token:
  assumes "Bridge_Stop w bridge = (evs, Inr bridge')"
    and "i < length (usersByJID bridge)"
    and "usersByJID bridge ! i = (jid, user)"
  shows "length (usersByJID bridge') = length (usersByJID bridge)
    \<and> fst (usersByJID bridge' ! i) = jid
    \<and> disconnect_calls evs = active_sessions (usersByJID bridge)
    \<and> (Conn user = None \<longrightarrow> snd (usersByJID bridge' ! i) = user)
    \<and> (\<forall>c. Conn user = Some c \<longrightarrow>
          c \<in> set (disconnect_calls evs)
          \<and> (\<forall>sess. Disconnect_res w c = Inr sess \<longrightarrow>
                snd (usersByJID bridge' ! i) = User_SetSession sess user
                \<and> Session (snd (usersByJID bridge' ! i)) = Some sess)
          \<and> (\<forall>err. Disconnect_res w c = Inl err \<longrightarrow> snd (usersByJID bridge' ! i) = user))"
proof -
  from assms(1) obtain ch where ch: "chan_send True (stopSaveLoop bridge) = Some ch"
    by (auto simp: Bridge_Stop_def split: option.splits)
  from assms(1) ch have evs: "evs = [stopSaveLoop_Send True, AS_Stop, EventProcessor_Stop]
     @ fst (Stop_disconnect w (usersByJID bridge)) @ Stop_persist w"
    and users': "usersByJID bridge' = snd (Stop_disconnect w (usersByJID bridge))"
    by (auto simp: Bridge_Stop_def split: prod.splits)
  have calls: "disconnect_calls evs = active_sessions (usersByJID bridge)"
    unfolding evs disconnect_calls_append
    by (simp add: Stop_disconnect_calls Stop_persist_no_disconnect)
  have len: "length (usersByJID bridge') = length (usersByJID bridge)"
    unfolding users' by (rule Stop_disconnect_length)
  note nth = Stop_disconnect_nth[OF assms(2,3), of w, folded users']
  have act: "Conn user = Some c \<Longrightarrow> c \<in> set (disconnect_calls evs)" for c
    unfolding calls using active_sessions_nth[OF assms(2,3)] by simp
  show ?thesis
    using len calls nth act by (auto simp: User_SetSession_def)
qed

theorem Stop_captures_session_token_witness:
  "\<exists>evs bridge'. Bridge_Stop example_world example_bridge = (evs, Inr bridge')
     \<and> disconnect_calls evs = [1, 2]
     \<and> map fst (usersByJID bridge') = map fst example_users
     \<and> snd (usersByJID bridge' ! 0) = alice\<lparr>Session := Some ''new-token''\<rparr>
     \<and> snd (usersByJID bridge' ! 1) = bob
     \<and> snd (usersByJID bridge' ! 2) = carol"
proof -
  obtain evs bridge' where
    stop: "Bridge_Stop example_world example_bridge = (evs, Inr bridge')"
    using Stop_returns[of example_bridge example_world] by (auto simp: example_bridge_def)
  have len: "length (usersByJID example_bridge) = 3"
    and u0: "usersByJID example_bridge ! 0 = (''4915100000001'', alice)"
    and u1: "usersByJID example_bridge ! 1 = (''4915100000002'', bob)"
    and u2: "usersByJID example_bridge ! 2 = (''4915100000003'', carol)"
    by (simp_all add: example_bridge_def example_users_def)
  have act: "active_sessions (usersByJID example_bridge) = [1, 2]"
    by (simp add: example_bridge_def example_users_def alice_def bob_def carol_def)
  have d1: "Disconnect_res example_world 1 = Inr ''new-token''"
    and d2: "Disconnect_res example_world 2 = Inl ''connection timed out''"
    by (simp_all add: example_world_def)
  have c0: "Conn alice = Some 1" and c1: "Conn bob = Some 2" and c2: "Conn carol = None"
    by (simp_all add: alice_def bob_def carol_def)
  have r0: "length (usersByJID bridge') = 3 \<and> fst (usersByJID bridge' ! 0) = ''4915100000001''
      \<and> disconnect_calls evs = [1, 2]
      \<and> snd (usersByJID bridge' ! 0) = alice\<lparr>Session := Some ''new-token''\<rparr>"
    using Stop_captures_session_token[OF stop _ u0] len act c0 d1
    by (simp add: User_SetSession_def)
  have r1: "fst (usersByJID bridge' ! 1) = ''4915100000002'' \<and> snd (usersByJID bridge' ! 1) = bob"
    using Stop_captures_session_token[OF stop _ u1] len c1 d2 by simp
  have r2: "fst (usersByJID bridge' ! 2) = ''4915100000003'' \<and> snd (usersByJID bridge' ! 2) = carol"
    using Stop_captures_session_token[OF stop _ u2] len c2 by simp
  have keys: "map fst (usersByJID bridge') = map fst example_users"
  proof (rule nth_equalityI)
    show "length (map fst (usersByJID bridge')) = length (map fst example_users)"
      using r0 by (simp add: example_users_def)
  next
    fix i assume "i < length (map fst (usersByJID bridge'))"
    then have "i = 0 \<or> i = 1 \<or> i = 2" using r0 by auto
    then show "map fst (usersByJID bridge') ! i = map fst example_users ! i"
      using r0 r1 r2 by (auto simp: example_users_def)
  qed
  from stop r0 r1 r2 keys show ?thesis by blast
qed

subsection \<open>Generating the registration (C5)\<close>

text \<open>
  C5: when \<open>Bridge.Main\<close> runs with the \<open>-g\<close> flag set, the registration can be
  generated from the loaded config, and both files can be written, its run consists of
  generating the registration, saving it at the registration path, saving the config at
  the config path and printing the notice; the process exits with code 0, and no event
  of \<open>Init\<close> or \<open>Start\<close> occurs.
\<close>

theorem Main_generates_registration_and_exits:
  assumes "generateRegistration w"
    and "NewRegistration_res w (Config bridge) = Inr (reg, cfg)"
    and "Registration_Save_err w reg (registrationPath w) = None"
    and "Config_Save_err w cfg (configPath w) = None"
  shows "Bridge_Main w bridge =
           ([Config_NewRegistration, Registration_Save (registrationPath w),
             Config_Save (configPath w), Stdout registration_generated], Exit 0)
    \<and> filter init_or_start (fst (Bridge_Main w bridge)) = []"
  using assms by (simp add: Bridge_Main_def Bridge_GenerateRegistration_def)

theorem Main_generates_registration_and_exits_witness:
  "generateRegistration generate_world
   \<and> NewRegistration_res generate_world (Config example_bridge) = Inr (''registration'', example_config)
   \<and> Registration_Save_err generate_world ''registration'' (registrationPath generate_world) = None
   \<and> Config_Save_err generate_world example_config (configPath generate_world) = None
   \<and> Bridge_Main generate_world example_bridge =
        ([Config_NewRegistration, Registration_Save ''registration.yaml'',
          Config_Save ''config.yaml'', Stdout registration_generated], Exit 0)"
proof -
  have h1: "generateRegistration generate_world"
    and h2: "NewRegistration_res generate_world (Config example_bridge)
               = Inr (''registration'', example_config)"
    and h3: "Registration_Save_err generate_world ''registration''
               (registrationPath generate_world) = None"
    and h4: "Config_Save_err generate_world example_config (configPath generate_world) = None"
    and paths: "registrationPath generate_world = ''registration.yaml''"
               "configPath generate_world = ''config.yaml''"
    by (simp_all add: generate_world_def example_world_def example_bridge_def)
  from Main_generates_registration_and_exits[OF h1 h2 h3 h4] h1 h2 h3 h4 paths
  show ?thesis by simp
qed

subsection \<open>A config that cannot be loaded (C6)\<close>

text \<open>
  C6 says that every invocation with an unreadable or invalid config path exits with
  code 10 before writing any file. \<open>main\<close> parses the command line first: an invocation
  that asks for help prints the help and exits with code 0, and one whose flags do not
  parse exits with code 1, both before the config is looked at (lines 268 to 276).
\<close>

theorem unreadable_config_counterexample:
  "config_Load_res no_config_help_world (configPath no_config_help_world)
     = Inl ''open config.yaml: no such file or directory''
   \<and> main no_config_help_world = ([PrintHelp], Exit 0)
   \<and> config_Load_res no_config_bad_flag_world (configPath no_config_bad_flag_world)
     = Inl ''open config.yaml: no such file or directory''
   \<and> main no_config_bad_flag_world = ([Stderr ''Unknown flag: --verbose'', PrintHelp], Exit 1)"
  by (simp add: main_def no_config_help_world_def no_config_bad_flag_world_def example_world_def)

text \<open>
  C6 as amended: every invocation whose command line parses and does not ask for help,
  with a config that cannot be loaded, tries to load the config, reports the failure on
  standard error and exits with code 10; nothing else happens, so no file is written.
\<close>

theorem main_unreadable_config_exits_10:
  assumes "flag_Parse_err w = None" and "\<not> wantHelp w"
    and "config_Load_res w (configPath w) = Inl err"
  shows "main w = ([config_Load (configPath w), Stderr (msg_err ''Failed to load config:'' err)],
                   Exit 10)
    \<and> filter writes_file (fst (main w)) = []"
  using assms by (simp add: main_def NewBridge_def)

theorem main_unreadable_config_exits_10_witness:
  "flag_Parse_err no_config_world = None \<and> \<not> wantHelp no_config_world
   \<and> config_Load_res no_config_world (configPath no_config_world)
       = Inl ''open config.yaml: no such file or directory''
   \<and> snd (main no_config_world) = Exit 10
   \<and> filter writes_file (fst (main no_config_world)) = []"
proof -
  have h1: "flag_Parse_err no_config_world = None"
    and h2: "\<not> wantHelp no_config_world"
    and h3: "config_Load_res no_config_world (configPath no_config_world)
               = Inl ''open config.yaml: no such file or directory''"
    by (simp_all add: no_config_world_def example_world_def)
  from main_unreadable_config_exits_10[OF h1 h2 h3] h1 h2 h3 show ?thesis by simp
qed

subsection \<open>The exit code after a signal (C7)\<close>

text \<open>
  C7: in every run in which the termination signal is received, the process ends with
  \<open>os.Exit(0)\<close>, whatever the disconnects and the saves of the shutdown returned (each
  of them is taken to return): the send on the stop channel goes through, no step of
  \<open>Stop\<close> ends the process, and \<open>Main\<close> exits with 0 when \<open>Stop\<close> is back.
\<close>

theorem main_exits_0_after_signal:
  assumes "signal_Received \<in> set (fst (main w))"
  shows "snd (main w) = Exit 0"
proof (cases "flag_Parse_err w")
  case (Some err)
  with assms show ?thesis by (simp add: main_def)
next
  case None
  show ?thesis
  proof (cases "wantHelp w")
    case True
    with None assms show ?thesis by (simp add: main_def)
  next
    case nohelp: False
    show ?thesis
    proof (cases "NewBridge w")
      case (Pair evs r)
      show ?thesis
      proof (cases r)
        case (Inl out)
        with Pair have "evs = [config_Load (configPath w),
            Stderr (msg_err ''Failed to load config:'' (projl (config_Load_res w (configPath w))))]"
          by (auto simp: NewBridge_def split: sum.splits)
        with None nohelp Pair Inl assms show ?thesis by (simp add: main_def)
      next
        case (Inr b)
        with Pair have evs: "evs = [config_Load (configPath w)]"
          by (auto simp: NewBridge_def split: sum.splits)
        have chan: "stopSaveLoop b = make_chan_bool 1"
          using NewBridge_channel Pair Inr by metis
        have m: "main w = (evs @ fst (Bridge_Main w b), snd (Bridge_Main w b))"
          using None nohelp Pair Inr by (simp add: main_def split: prod.split)
        with assms evs have "signal_Received \<in> set (fst (Bridge_Main w b))" by simp
        from Bridge_Main_signal_exit[OF chan this] m show ?thesis by simp
      qed
    qed
  qed
qed

theorem main_exits_0_after_signal_witness:
  "signal_Received \<in> set (fst (main disk_full_world))
   \<and> Disconnect_res disk_full_world 2 = Inl ''connection timed out''
   \<and> StateStore_Save_err disk_full_world = Some ''no space left on device''
   \<and> SaveUsers_err disk_full_world = Some ''no space left on device''
   \<and> snd (main disk_full_world) = Exit 0"
proof -
  have h: "signal_Received \<in> set (fst (main disk_full_world))"
    by (simp add: main_def NewBridge_def Bridge_Main_def Bridge_Init_def Bridge_Start_def
        Bridge_Stop_def Stop_persist_def warn_if_def chan_send_def make_chan_bool_def
        disk_full_world_def example_world_def split: prod.split)
  have errs: "Disconnect_res disk_full_world 2 = Inl ''connection timed out''"
      "StateStore_Save_err disk_full_world = Some ''no space left on device''"
      "SaveUsers_err disk_full_world = Some ''no space left on device''"
    by (simp_all add: disk_full_world_def example_world_def)
  from main_exits_0_after_signal[OF h] h errs show ?thesis by simp
qed

subsection \<open>The stop signal of the autosave loop (C9)\<close>

text \<open>
  C9: \<open>NewBridge\<close> makes the stop channel with capacity 1 before anything can run the
  loop. In every state the loop and the main goroutine can reach from there, in any
  interleaving: as long as \<open>Stop\<close> has not sent, its send can go through at once, so
  \<open>Stop\<close> is never blocked on it; once \<open>Stop\<close> has sent, the loop has returned or the
  signal is waiting in the buffer, a loop standing at its \<open>select\<close> can take it and
  then returns, and the loop can reach its return with no second send. The loop never
  returns before the send.
\<close>

theorem stop_signal_once_suffices:
  assumes "NewBridge w = (evs, Inr b)" and "run sch (started b) = Some s"
  shows "(\<not> stop_sent s \<longrightarrow>
            (\<exists>s'. step Stop_send s = Some s')
            \<and> snd (Bridge_Stop w' (shared s)) \<noteq> Inl BlockedOnSend)
    \<and> (stop_sent s \<longrightarrow>
            (SaveLoop_pc s = Returned \<or> buffer (stopSaveLoop (shared s)) = [True])
            \<and> (SaveLoop_pc s = Selecting \<longrightarrow>
                 (\<exists>s'. step SaveLoop_stop s = Some s' \<and> SaveLoop_pc s' = Returned))
            \<and> (\<exists>sch' s'. Stop_send \<notin> set sch' \<and> run sch' s = Some s'
                  \<and> SaveLoop_pc s' = Returned))
    \<and> (SaveLoop_pc s = Returned \<longrightarrow> stop_sent s)"
proof -
  have inv: "stop_inv s"
    using run_keeps_stop_inv[OF started_stop_inv[OF NewBridge_channel[OF assms(1)]] assms(2)] .
  have a: "\<not> stop_sent s \<Longrightarrow> (\<exists>s'. step Stop_send s = Some s')
            \<and> snd (Bridge_Stop w' (shared s)) \<noteq> Inl BlockedOnSend"
    using inv by (auto simp: stop_inv_def chan_send_def Bridge_Stop_def split: prod.splits)
  have b1: "stop_sent s \<Longrightarrow> SaveLoop_pc s = Returned \<or> buffer (stopSaveLoop (shared s)) = [True]"
    using inv by (auto simp: stop_inv_def)
  have b2: "stop_sent s \<Longrightarrow> SaveLoop_pc s = Selecting \<Longrightarrow>
            \<exists>s'. step SaveLoop_stop s = Some s' \<and> SaveLoop_pc s' = Returned"
    using inv by (auto simp: stop_inv_def chan_recv_def)
  have b3: "\<exists>sch' s'. Stop_send \<notin> set sch' \<and> run sch' s = Some s' \<and> SaveLoop_pc s' = Returned"
    if sent: "stop_sent s"
  proof (cases "SaveLoop_pc s")
    case NotStarted
    with sent inv obtain s' where "run [SaveLoop_begin, SaveLoop_stop] s = Some s'"
        and "SaveLoop_pc s' = Returned"
      by (auto simp: stop_inv_def chan_recv_def)
    moreover have "Stop_send \<notin> set [SaveLoop_begin, SaveLoop_stop]" by simp
    ultimately show ?thesis by blast
  next
    case Selecting
    with sent inv obtain s' where "run [SaveLoop_stop] s = Some s'"
        and "SaveLoop_pc s' = Returned"
      by (auto simp: stop_inv_def chan_recv_def)
    moreover have "Stop_send \<notin> set [SaveLoop_stop]" by simp
    ultimately show ?thesis by blast
  next
    case Returned
    then have "run [] s = Some s" and "SaveLoop_pc s = Returned" by simp_all
    moreover have "Stop_send \<notin> set []" by simp
    ultimately show ?thesis by blast
  qed
  have c: "SaveLoop_pc s = Returned \<Longrightarrow> stop_sent s"
    using inv by (auto simp: stop_inv_def split: if_splits)
  from a b1 b2 b3 c show ?thesis by blast
qed

theorem stop_signal_once_suffices_witness:
  "\<exists>b s1 s2 s3.
     NewBridge example_world = ([config_Load ''config.yaml''], Inr b)
     \<and> run [SaveLoop_begin, Mark_dirty Users, SaveLoop_tick] (started b) = Some s1
     \<and> \<not> stop_sent s1
     \<and> (\<exists>s'. step Stop_send s1 = Some s')
     \<and> snd (Bridge_Stop example_world (shared s1)) \<noteq> Inl BlockedOnSend
     \<and> run [SaveLoop_begin, Mark_dirty Users, SaveLoop_tick, Stop_send, SaveLoop_tick] (started b)
         = Some s2
     \<and> stop_sent s2 \<and> SaveLoop_pc s2 = Selecting
     \<and> buffer (stopSaveLoop (shared s2)) = [True]
     \<and> (\<exists>s'. step SaveLoop_stop s2 = Some s' \<and> SaveLoop_pc s' = Returned)
     \<and> run [Stop_send, SaveLoop_begin, SaveLoop_stop] (started b) = Some s3
     \<and> SaveLoop_pc s3 = Returned \<and> stop_sent s3"
proof -
  obtain b where nb: "NewBridge example_world = ([config_Load ''config.yaml''], Inr b)"
    by (simp add: NewBridge_def example_world_def)
  then have chan: "stopSaveLoop b = make_chan_bool 1" by (rule NewBridge_channel)
  obtain s1 where r1: "run [SaveLoop_begin, Mark_dirty Users, SaveLoop_tick] (started b) = Some s1"
      and n1: "\<not> stop_sent s1"
    by (simp add: started_def)
  obtain s2 where
    r2: "run [SaveLoop_begin, Mark_dirty Users, SaveLoop_tick, Stop_send, SaveLoop_tick] (started b)
           = Some s2"
      and n2: "stop_sent s2" "SaveLoop_pc s2 = Selecting"
    using chan by (simp add: started_def chan_send_def make_chan_bool_def)
  obtain s3 where r3: "run [Stop_send, SaveLoop_begin, SaveLoop_stop] (started b) = Some s3"
      and n3: "SaveLoop_pc s3 = Returned"
    using chan by (simp add: started_def chan_send_def chan_recv_def make_chan_bool_def)
  from stop_signal_once_suffices[OF nb r1, of example_world] n1
  have w1: "(\<exists>s'. step Stop_send s1 = Some s')
            \<and> snd (Bridge_Stop example_world (shared s1)) \<noteq> Inl BlockedOnSend"
    by blast
  from stop_signal_once_suffices[OF nb r2] n2
  have w2: "buffer (stopSaveLoop (shared s2)) = [True]
            \<and> (\<exists>s'. step SaveLoop_stop s2 = Some s' \<and> SaveLoop_pc s' = Returned)"
    by auto
  from stop_signal_once_suffices[OF nb r3] n3 have w3: "stop_sent s3"
    by blast
  from nb r1 n1 w1 r2 n2 w2 r3 n3 w3 show ?thesis by blast
qed

subsection \<open>A log file that cannot be opened (C10)\<close>

text \<open>
  C10: when the app service has been set up and opening the log file fails, \<open>Init\<close>
  reports it on standard error and exits with code 12; the app service was set up
  before, and the state store is not loaded. No other failure of \<open>Init\<close> exits with 12:
  the code is 12 exactly when the app service could be made and the log file could not
  be opened.
\<close>

theorem Init_log_file_failure_exits_12:
  assumes "MakeAppService_err w (Config bridge) = None"
    and "log_OpenFile_err w = Some err"
  shows "Bridge_Init w bridge =
           (Init_appservice @ Init_logging @ [Stderr (msg_err ''Failed to open log file:'' err)],
            Inl (Exit 12))
    \<and> StateStore_Load \<notin> set (fst (Bridge_Init w bridge))
    \<and> (snd (Bridge_Init w' bridge') = Inl (Exit 12)) =
         (MakeAppService_err w' (Config bridge') = None \<and> log_OpenFile_err w' \<noteq> None)"
proof -
  have a: "Bridge_Init w bridge =
           (Init_appservice @ Init_logging @ [Stderr (msg_err ''Failed to open log file:'' err)],
            Inl (Exit 12))"
    using assms by (simp add: Bridge_Init_def)
  have b: "StateStore_Load \<notin> set (fst (Bridge_Init w bridge))"
    unfolding a by (simp add: Init_appservice_def Init_logging_def)
  have c: "(snd (Bridge_Init w' bridge') = Inl (Exit 12)) =
         (MakeAppService_err w' (Config bridge') = None \<and> log_OpenFile_err w' \<noteq> None)"
    by (auto simp: Bridge_Init_def split: sum.splits option.splits)
  from a b c show ?thesis by blast
qed

theorem Init_log_file_failure_exits_12_witness:
  "MakeAppService_err no_log_world (Config example_bridge) = None
   \<and> log_OpenFile_err no_log_world = Some ''open bridge.log: permission denied''
   \<and> snd (Bridge_Init no_log_world example_bridge) = Inl (Exit 12)
   \<and> fst (Bridge_Init no_log_world example_bridge) =
       [Config_MakeAppService, AS_Init, AS_BotIntent, log_Create, Logging_Configure, log_OpenFile,
        Stderr ''Failed to open log file: open bridge.log: permission denied'']"
proof -
  have h1: "MakeAppService_err no_log_world (Config example_bridge) = None"
    and h2: "log_OpenFile_err no_log_world = Some ''open bridge.log: permission denied''"
    by (simp_all add: no_log_world_def example_world_def)
  from Init_log_file_failure_exits_12[OF h1 h2] h1 h2 show ?thesis
    by (simp add: Init_appservice_def Init_logging_def msg_err_def)
qed

end
